theory Spec2Isabelle
  imports Complex_Main "HOL-Library.Word" "HOL-Library.AList"
begin

section \<open>Python values, exceptions and HTTP responses\<close>

text \<open>
  The services of \<^verbatim>\<open>clip-app\<close> exchange JSON objects. A JSON value is a \<open>pyval\<close>;
  numbers are carried as exact rationals, since no handler computes with them.
\<close>

datatype pyval =
    PNone
  | PBool bool
  | PStr string
  | PNum rat
  | PList "pyval list"
  | PDict "(string \<times> pyval) list"

type_synonym pydict = "(string \<times> pyval) list"

text \<open>
  A Kafka message value is a \<^verbatim>\<open>dict\<close>. Its \<^verbatim>\<open>'request_id'\<close> entry is the text of a
  UUID (\<^verbatim>\<open>str(uuid.uuid4())\<close>, annotated \<^verbatim>\<open>request_id: str\<close> where it is passed on), so it
  is kept as a string; \<open>None\<close> means that the key is absent. All other entries are in
  \<open>msg_fields\<close>, in insertion order.
\<close>

record message =
  msg_request_id :: "string option"
  msg_fields :: pydict

definition msg_to_py :: "message \<Rightarrow> pyval" where
  "msg_to_py m =
     PDict ((case msg_request_id m of None \<Rightarrow> [] | Some r \<Rightarrow> [(''request_id'', PStr r)])
            @ msg_fields m)"

text \<open>
  Exceptions are values. \<open>PyException cls txt\<close> is an instance of a subclass \<open>cls\<close> of
  \<^verbatim>\<open>Exception\<close> whose \<^verbatim>\<open>str()\<close> is \<open>txt\<close>; \<^verbatim>\<open>fastapi.HTTPException\<close> is a subclass of
  \<^verbatim>\<open>Exception\<close> as well; \<^verbatim>\<open>KeyboardInterrupt\<close> and \<^verbatim>\<open>SystemExit\<close> derive from
  \<^verbatim>\<open>BaseException\<close> only, so \<^verbatim>\<open>except Exception\<close> lets them through. The texts of
  exceptions the interpreter raises are written without the quotation marks Python puts
  around names.
\<close>

datatype exn =
    PyException string string
  | HTTPException nat string
  | KeyboardInterrupt
  | SystemExit

fun is_Exception :: "exn \<Rightarrow> bool" where
  "is_Exception (PyException cls txt) = True"
| "is_Exception (HTTPException code detail) = True"
| "is_Exception KeyboardInterrupt = False"
| "is_Exception SystemExit = False"

fun show_nat :: "nat \<Rightarrow> string" where
  "show_nat n =
     (if n < 10 then [''0123456789'' ! n]
      else show_nat (n div 10) @ [''0123456789'' ! (n mod 10)])"

declare show_nat.simps [simp del]

fun str_exn :: "exn \<Rightarrow> string" where
  "str_exn (PyException cls txt) = txt"
| "str_exn (HTTPException code detail) = show_nat code @ '': '' @ detail"
| "str_exn KeyboardInterrupt = []"
| "str_exn SystemExit = []"

text \<open>Truthiness of an optional string: \<^verbatim>\<open>None\<close> and \<^verbatim>\<open>''\<close> are falsy.\<close>

definition truthy :: "string option \<Rightarrow> bool" where
  "truthy v = (case v of None \<Rightarrow> False | Some s \<Rightarrow> s \<noteq> [])"

definition startswith :: "string \<Rightarrow> string \<Rightarrow> bool" where
  "startswith s p = (take (length p) s = p)"

text \<open>
  What FastAPI sends for the outcome of a path operation: the returned value with status
  200, an \<^verbatim>\<open>HTTPException\<close> with its own status code, any other exception as 500.
\<close>

fun http_status :: "exn + pyval \<Rightarrow> nat" where
  "http_status (Inr body) = 200"
| "http_status (Inl (HTTPException code detail)) = code"
| "http_status (Inl e) = 500"

section \<open>kafka\_config.py: the broker, producers and consume loops\<close>

definition IMAGE_UPLOAD_TOPIC :: string where
  "IMAGE_UPLOAD_TOPIC = ''image-uploads''"

definition ANALYSIS_RESULTS_TOPIC :: string where
  "ANALYSIS_RESULTS_TOPIC = ''analysis-results''"

text \<open>
  The broker holds the records published so far (topic, serialized key, value), oldest
  first. \<open>send_faults\<close> is the fault schedule of the connection: each send consumes one
  entry, and \<open>True\<close> makes that send raise without appending; with the schedule
  exhausted every send succeeds.
\<close>

record broker =
  records :: "(string \<times> string option \<times> message) list"
  send_faults :: "bool list"

definition key_serializer :: "string \<Rightarrow> string option" where
  \<comment> \<open>\<^verbatim>\<open>lambda k: k.encode('utf-8') if k else None\<close>\<close>
  "key_serializer k = (if k \<noteq> [] then Some k else None)"

text \<open>\<^verbatim>\<open>producer.send(topic, key=..., value=...)\<close> followed by \<^verbatim>\<open>future.get(timeout=10)\<close>.\<close>

definition producer_send ::
  "string \<Rightarrow> string \<Rightarrow> message \<Rightarrow> broker \<Rightarrow> (exn + unit) \<times> broker" where
  "producer_send topic key val b =
     (case send_faults b of
        [] \<Rightarrow> (Inr (), b\<lparr>records := records b @ [(topic, key_serializer key, val)]\<rparr>)
      | f # fs \<Rightarrow>
          if f then (Inl (PyException ''KafkaTimeoutError'' ''Timeout waiting for future''),
                     b\<lparr>send_faults := fs\<rparr>)
          else (Inr (), b\<lparr>records := records b @ [(topic, key_serializer key, val)],
                          send_faults := fs\<rparr>))"

definition topic_values :: "string \<Rightarrow> broker \<Rightarrow> message list" where
  "topic_values topic b = map (\<lambda>(t, k, v). v) (filter (\<lambda>(t, k, v). t = topic) (records b))"

subsection \<open>base64\<close>

definition b64_alphabet :: string where
  "b64_alphabet = ''ABCDEFGHIJKLMNOPQRSTUVWXYZabcdefghijklmnopqrstuvwxyz0123456789+/''"

definition b64_char :: "nat \<Rightarrow> char" where
  "b64_char i = b64_alphabet ! i"

fun b64encode :: "8 word list \<Rightarrow> string" where
  "b64encode [] = []"
| "b64encode [a] =
     [b64_char (unat a div 4), b64_char (unat a mod 4 * 16), CHR ''='', CHR ''='']"
| "b64encode [a, b] =
     [b64_char (unat a div 4), b64_char (unat a mod 4 * 16 + unat b div 16),
      b64_char (unat b mod 16 * 4), CHR ''='']"
| "b64encode (a # b # c # rest) =
     [b64_char (unat a div 4), b64_char (unat a mod 4 * 16 + unat b div 16),
      b64_char (unat b mod 16 * 4 + unat c div 64), b64_char (unat c mod 64)]
     @ b64encode rest"

subsection \<open>KafkaImageProducer.send\_image\_for\_analysis\<close>

text \<open>
  \<open>uuid\<close> is the value \<^verbatim>\<open>str(uuid.uuid4())\<close> draws in this call and \<open>now\<close> the text of
  \<^verbatim>\<open>datetime.utcnow().isoformat()\<close>. The method returns the request id it generated; a
  failed send is printed and re-raised.
\<close>

definition send_image_for_analysis ::
  "string \<Rightarrow> string \<Rightarrow> 8 word list \<Rightarrow> string option \<Rightarrow> string option \<Rightarrow> broker
     \<Rightarrow> (exn + string) \<times> broker" where
  "send_image_for_analysis uuid now image_data filename user_id b =
     (let request_id = uuid;
          image_base64 = b64encode image_data;
          message = \<lparr>msg_request_id = Some request_id,
                     msg_fields =
                       [(''user_id'', PStr (case user_id of None \<Rightarrow> ''anonymous''
                                           | Some u \<Rightarrow> if u \<noteq> [] then u else ''anonymous'')),
                        (''filename'', (case filename of None \<Rightarrow> PNone | Some f \<Rightarrow> PStr f)),
                        (''image_data'', PStr image_base64),
                        (''timestamp'', PStr now),
                        (''status'', PStr ''pending'')]\<rparr>
      in case producer_send IMAGE_UPLOAD_TOPIC request_id message b of
           (Inl e, b') \<Rightarrow> (Inl e, b')
         | (Inr u, b') \<Rightarrow> (Inr request_id, b'))"

text \<open>The parameters of the method after \<^verbatim>\<open>self\<close>: \<^verbatim>\<open>(image_data, filename, user_id=None)\<close>.\<close>

definition send_image_for_analysis_params :: "string list" where
  "send_image_for_analysis_params = [''image_data'', ''filename'', ''user_id'']"

text \<open>
  Binding of keyword arguments: a keyword that names no parameter makes the call raise
  \<^verbatim>\<open>TypeError\<close> before the body runs. The result is the first such keyword.
\<close>

definition unexpected_keyword :: "string list \<Rightarrow> string list \<Rightarrow> string option" where
  "unexpected_keyword params kwargs =
     (case filter (\<lambda>k. k \<notin> set params) kwargs of [] \<Rightarrow> None | k # ks \<Rightarrow> Some k)"

subsection \<open>KafkaResultsProducer.send\_analysis\_result\<close>

definition send_analysis_result ::
  "string \<Rightarrow> pyval \<Rightarrow> pyval \<Rightarrow> pyval \<Rightarrow> string option \<Rightarrow> string \<Rightarrow> broker
     \<Rightarrow> (exn + unit) \<times> broker" where
  "send_analysis_result request_id results user_id processing_time error now b =
     (let result_message =
            \<lparr>msg_request_id = Some request_id,
             msg_fields =
               [(''user_id'', user_id),
                (''results'', results),
                (''processing_time'', processing_time),
                (''error'', (case error of None \<Rightarrow> PNone | Some txt \<Rightarrow> PStr txt)),
                (''timestamp'', PStr now),
                (''status'', PStr (if \<not> truthy error then ''completed'' else ''failed''))]\<rparr>
      in producer_send ANALYSIS_RESULTS_TOPIC request_id result_message b)"

subsection \<open>KafkaImageConsumer.consume\_images and KafkaResultsConsumer.consume\_results\<close>

text \<open>
  The consumer iterator blocks for ever on an idle topic, so the loop is modelled on a
  finite sequence of dequeued message values. The result is how the loop ended, the
  messages on which the callback was invoked (in order) and the final state of what the
  callback works on. A callback returns the exception it raised, if any.

  Inside the loop \<^verbatim>\<open>image_data['request_id']\<close> is read for the log line before the
  callback runs; a \<^verbatim>\<open>KeyError\<close> there is caught by the inner handler like any other
  \<^verbatim>\<open>Exception\<close>. \<^verbatim>\<open>KeyboardInterrupt\<close> reaches the outer handler, which ends the loop;
  \<^verbatim>\<open>SystemExit\<close> leaves the method.
\<close>

datatype loop_end = Exhausted | Interrupted | Raised exn

fun consume_images ::
  "(message \<Rightarrow> 's \<Rightarrow> exn option \<times> 's) \<Rightarrow> message list \<Rightarrow> 's
     \<Rightarrow> loop_end \<times> message list \<times> 's" where
  "consume_images callback_function [] s = (Exhausted, [], s)"
| "consume_images callback_function (image_data # rest) s =
     (case msg_request_id image_data of
        None \<Rightarrow> consume_images callback_function rest s
      | Some request_id \<Rightarrow>
          (case callback_function image_data s of
             (None, s') \<Rightarrow>
               (case consume_images callback_function rest s' of
                  (fin, invoked, s'') \<Rightarrow> (fin, image_data # invoked, s''))
           | (Some e, s') \<Rightarrow>
               if is_Exception e then
                 (case consume_images callback_function rest s' of
                    (fin, invoked, s'') \<Rightarrow> (fin, image_data # invoked, s''))
               else if e = KeyboardInterrupt then (Interrupted, [image_data], s')
               else (Raised e, [image_data], s')))"

fun consume_results ::
  "(message \<Rightarrow> 's \<Rightarrow> exn option \<times> 's) \<Rightarrow> message list \<Rightarrow> 's
     \<Rightarrow> loop_end \<times> message list \<times> 's" where
  "consume_results callback_function [] s = (Exhausted, [], s)"
| "consume_results callback_function (result_data # rest) s =
     (case msg_request_id result_data of
        None \<Rightarrow> consume_results callback_function rest s
      | Some request_id \<Rightarrow>
          (case callback_function result_data s of
             (None, s') \<Rightarrow>
               (case consume_results callback_function rest s' of
                  (fin, invoked, s'') \<Rightarrow> (fin, result_data # invoked, s''))
           | (Some e, s') \<Rightarrow>
               if is_Exception e then
                 (case consume_results callback_function rest s' of
                    (fin, invoked, s'') \<Rightarrow> (fin, result_data # invoked, s''))
               else if e = KeyboardInterrupt then (Interrupted, [result_data], s')
               else (Raised e, [result_data], s')))"

section \<open>image\_processor.py: the analysis orchestrator\<close>

text \<open>
  \<open>analyze_image\<close> stands for \<^verbatim>\<open>CLIPImageProcessor.analyze_image\<close>, the call into the CLIP
  model: given the encoded image it returns the predictions and the processing time, or
  raises.
\<close>

type_synonym engine = "pyval \<Rightarrow> exn + (pyval \<times> pyval)"

definition send_error_result ::
  "string \<Rightarrow> pyval \<Rightarrow> exn \<Rightarrow> string \<Rightarrow> broker \<Rightarrow> exn option \<times> broker" where
  \<comment> \<open>the body of the \<^verbatim>\<open>except Exception as e\<close> branch of \<open>process_image_message\<close>\<close>
  "send_error_result request_id user_id e now b =
     (case send_analysis_result request_id (PList []) user_id PNone (Some (str_exn e)) now b of
        (Inl e', b') \<Rightarrow> (Some e', b')
      | (Inr u, b') \<Rightarrow> (None, b'))"

text \<open>
  The log line after a successful send formats the processing time with \<^verbatim>\<open>:.2f\<close>,
  inside the \<^verbatim>\<open>try\<close> block: a value that is not a number raises there.
\<close>

fun format_2f :: "pyval \<Rightarrow> exn option" where
  "format_2f (PNum t) = None"
| "format_2f (PBool f) = None"
| "format_2f (PStr t) =
     Some (PyException ''ValueError'' ''Unknown format code f for object of type str'')"
| "format_2f v =
     Some (PyException ''TypeError'' ''unsupported format string passed to __format__'')"

definition process_image_message ::
  "engine \<Rightarrow> string \<Rightarrow> message \<Rightarrow> broker \<Rightarrow> exn option \<times> broker" where
  "process_image_message analyze_image now message_data b =
     (case msg_request_id message_data of
        None \<Rightarrow> (Some (PyException ''KeyError'' ''request_id''), b)
      | Some request_id \<Rightarrow>
     (case map_of (msg_fields message_data) ''user_id'' of
        None \<Rightarrow> (Some (PyException ''KeyError'' ''user_id''), b)
      | Some user_id \<Rightarrow>
     (case map_of (msg_fields message_data) ''filename'' of
        None \<Rightarrow> (Some (PyException ''KeyError'' ''filename''), b)
      | Some filename \<Rightarrow>
     (case map_of (msg_fields message_data) ''image_data'' of
        None \<Rightarrow>
          send_error_result request_id user_id (PyException ''KeyError'' ''image_data'') now b
      | Some image_data \<Rightarrow>
     (case analyze_image image_data of
        Inl e \<Rightarrow>
          if is_Exception e then send_error_result request_id user_id e now b
          else (Some e, b)
      | Inr (results, processing_time) \<Rightarrow>
          (case send_analysis_result request_id results user_id processing_time None now b of
             (Inl e, b') \<Rightarrow>
               if is_Exception e then send_error_result request_id user_id e now b'
               else (Some e, b')
           | (Inr u, b') \<Rightarrow>
               (case format_2f processing_time of
                  Some e \<Rightarrow> send_error_result request_id user_id e now b'
                | None \<Rightarrow> (None, b'))))))))"

section \<open>simple\_api.py: the polling REST API\<close>

text \<open>An uploaded file as the handler sees it (\<^verbatim>\<open>UploadFile\<close>).\<close>

record upload =
  upl_filename :: "string option"
  upl_content_type :: "string option"
  upl_data :: "8 word list"

record pending_info =
  pi_filename :: "string option"
  pi_content_type :: string
  pi_size :: nat
  pi_submitted_at :: string
  pi_status :: string

text \<open>The module's global tables and its producer.\<close>

record api_state =
  analysis_results :: "string \<rightharpoonup> message"
  pending_requests :: "string \<rightharpoonup> pending_info"
  kafka_producer :: broker

text \<open>
  The body of the \<^verbatim>\<open>try\<close> block of \<open>analyze_image\<close>. \<open>uuid\<close> is the id the handler
  draws, \<open>uuid'\<close> the one \<open>send_image_for_analysis\<close> would draw. The call passes the
  keywords \<^verbatim>\<open>image_data, filename, request_id, user_id\<close>.
\<close>

definition analyze_image_try ::
  "string \<Rightarrow> string \<Rightarrow> string \<Rightarrow> upload \<Rightarrow> api_state \<Rightarrow> (exn + pyval) \<times> api_state" where
  "analyze_image_try uuid uuid' now file s =
     (case upl_content_type file of
        None \<Rightarrow> (Inl (PyException ''AttributeError''
                        ''NoneType object has no attribute startswith''), s)
      | Some content_type \<Rightarrow>
     if \<not> startswith content_type ''image/'' then
       (Inl (HTTPException 400 ''File must be an image''), s)
     else
       let image_data = upl_data file in
       if length image_data > 10 * 1024 * 1024 then
         (Inl (HTTPException 400 ''Image too large (max 10MB)''), s)
       else
         let request_id = uuid;
             s1 = s\<lparr>pending_requests := (pending_requests s)(request_id \<mapsto>
                     \<lparr>pi_filename = upl_filename file,
                      pi_content_type = content_type,
                      pi_size = length image_data,
                      pi_submitted_at = now,
                      pi_status = ''submitted''\<rparr>)\<rparr>
         in
         (case unexpected_keyword send_image_for_analysis_params
                 [''image_data'', ''filename'', ''request_id'', ''user_id''] of
            Some k \<Rightarrow>
              (Inl (PyException ''TypeError''
                     (''send_image_for_analysis() got an unexpected keyword argument '' @ k)),
               s1)
          | None \<Rightarrow>
              (case send_image_for_analysis uuid' now image_data (upl_filename file)
                      (Some ''api-user'') (kafka_producer s1) of
                 (Inl e, b') \<Rightarrow> (Inl e, s1\<lparr>kafka_producer := b'\<rparr>)
               | (Inr success, b') \<Rightarrow>
                   if success \<noteq> [] then
                     (Inr (PDict
                        [(''request_id'', PStr request_id),
                         (''status'', PStr ''accepted''),
                         (''message'', PStr ''Image submitted for analysis''),
                         (''filename'',
                            (case upl_filename file of None \<Rightarrow> PNone | Some f \<Rightarrow> PStr f)),
                         (''size_bytes'', PNum (of_nat (length image_data)))]),
                      s1\<lparr>kafka_producer := b',
                         pending_requests := (pending_requests s1)(request_id \<mapsto>
                           \<lparr>pi_filename = upl_filename file,
                            pi_content_type = content_type,
                            pi_size = length image_data,
                            pi_submitted_at = now,
                            pi_status = ''processing''\<rparr>)\<rparr>)
                   else
                     (Inl (HTTPException 500 ''Failed to submit image for processing''),
                      s1\<lparr>kafka_producer := b'\<rparr>))))"

text \<open>
  \<open>analyze_image\<close> is the \<^verbatim>\<open>try\<close> block under its handler
  \<^verbatim>\<open>except Exception as e: raise HTTPException(status_code=500, detail=str(e))\<close>.
\<close>

definition analyze_image ::
  "string \<Rightarrow> string \<Rightarrow> string \<Rightarrow> upload \<Rightarrow> api_state \<Rightarrow> (exn + pyval) \<times> api_state" where
  "analyze_image uuid uuid' now file s =
     (case analyze_image_try uuid uuid' now file s of
        (Inl e, s') \<Rightarrow>
          if is_Exception e then (Inl (HTTPException 500 (str_exn e)), s') else (Inl e, s')
      | (Inr body, s') \<Rightarrow> (Inr body, s'))"

definition handle_analysis_result :: "message \<Rightarrow> api_state \<Rightarrow> api_state" where
  "handle_analysis_result result_data s =
     (case msg_request_id result_data of
        None \<Rightarrow> s
      | Some request_id \<Rightarrow>
          if request_id \<noteq> [] then
            s\<lparr>analysis_results := (analysis_results s)(request_id \<mapsto> result_data),
              pending_requests := (pending_requests s)(request_id := None)\<rparr>
          else s)"

definition dict_get :: "pydict \<Rightarrow> string \<Rightarrow> pyval \<Rightarrow> pyval" where
  \<comment> \<open>\<^verbatim>\<open>d.get(key, default)\<close>\<close>
  "dict_get d k dflt = (case map_of d k of None \<Rightarrow> dflt | Some v \<Rightarrow> v)"

definition get_status :: "string \<Rightarrow> api_state \<Rightarrow> pydict" where
  "get_status request_id s =
     (case analysis_results s request_id of
        Some result \<Rightarrow>
          [(''request_id'', PStr request_id),
           (''status'', PStr ''completed''),
           (''result_available'', PBool True),
           (''completed_at'', dict_get (msg_fields result) ''timestamp'' PNone)]
      | None \<Rightarrow>
          (case pending_requests s request_id of
             Some p \<Rightarrow>
               [(''request_id'', PStr request_id),
                (''status'', PStr (pi_status p)),
                (''result_available'', PBool False),
                (''submitted_at'', PStr (pi_submitted_at p))]
           | None \<Rightarrow>
               [(''request_id'', PStr request_id),
                (''status'', PStr ''not_found''),
                (''result_available'', PBool False)]))"

definition get_result :: "string \<Rightarrow> api_state \<Rightarrow> exn + pydict" where
  "get_result request_id s =
     (case analysis_results s request_id of
        None \<Rightarrow>
          (case pending_requests s request_id of
             Some p \<Rightarrow>
               Inl (HTTPException 202 ''Analysis still in progress. Check /status/{request_id}'')
           | None \<Rightarrow> Inl (HTTPException 404 ''Request ID not found''))
      | Some result \<Rightarrow>
          Inr [(''request_id'', PStr request_id),
               (''status'', PStr ''completed''),
               (''analysis'', PDict
                  [(''predictions'', dict_get (msg_fields result) ''predictions'' (PList [])),
                   (''confidence_scores'',
                      dict_get (msg_fields result) ''confidence_scores'' (PList [])),
                   (''top_prediction'', dict_get (msg_fields result) ''top_prediction'' PNone),
                   (''processing_time_seconds'',
                      dict_get (msg_fields result) ''processing_time_seconds'' PNone),
                   (''model_info'', dict_get (msg_fields result) ''model_info'' (PDict []))]),
               (''metadata'', PDict
                  [(''filename'', dict_get (msg_fields result) ''filename'' PNone),
                   (''analyzed_at'', dict_get (msg_fields result) ''timestamp'' PNone),
                   (''image_dimensions'',
                      dict_get (msg_fields result) ''image_dimensions'' PNone)])])"

definition cleanup_old_results :: "api_state \<Rightarrow> pydict \<times> api_state" where
  "cleanup_old_results s =
     (let old_count = card (dom (analysis_results s));
          s' = s\<lparr>analysis_results := Map.empty, pending_requests := Map.empty\<rparr>
      in ([(''message'', PStr (''Cleaned up '' @ show_nat old_count @ '' old results'')),
           (''remaining_results'', PNum (of_nat (card (dom (analysis_results s')))))],
          s'))"

text \<open>
  What happens to the tables of the API between two status reads: a result arrives from
  the results consumer, a client reads a status, or a client calls \<^verbatim>\<open>DELETE /cleanup\<close>.
\<close>

datatype api_event = ResultArrival message | StatusRead string | Cleanup

fun api_step :: "api_event \<Rightarrow> api_state \<Rightarrow> api_state" where
  "api_step (ResultArrival result_data) s = handle_analysis_result result_data s"
| "api_step (StatusRead request_id) s = s"
| "api_step Cleanup s = snd (cleanup_old_results s)"

fun api_run :: "api_event list \<Rightarrow> api_state \<Rightarrow> api_state" where
  "api_run [] s = s"
| "api_run (ev # evs) s = api_run evs (api_step ev s)"

definition status_of :: "pydict \<Rightarrow> string option" where
  "status_of response = (case map_of response ''status'' of Some (PStr st) \<Rightarrow> Some st | _ \<Rightarrow> None)"

section \<open>realtime\_app.py: WebSocket delivery with a shared Redis index\<close>

subsection \<open>The Redis client\<close>

text \<open>
  The store maps a key to a value and an optional deadline; an entry whose deadline has
  passed is absent for every command. \<open>redis_faults\<close> is the fault schedule of the
  connection, consumed one entry per command like the broker's.
\<close>

datatype redis_value = RString string | RList "string list"

record redis =
  store :: "string \<rightharpoonup> (redis_value \<times> nat option)"
  clock :: nat
  redis_faults :: "bool list"

definition redis_lookup :: "redis \<Rightarrow> string \<Rightarrow> (redis_value \<times> nat option) option" where
  "redis_lookup r key =
     (case store r key of
        None \<Rightarrow> None
      | Some (v, None) \<Rightarrow> Some (v, None)
      | Some (v, Some deadline) \<Rightarrow> if clock r < deadline then Some (v, Some deadline) else None)"

definition redis_call :: "(redis \<Rightarrow> (exn + 'a) \<times> redis) \<Rightarrow> redis \<Rightarrow> (exn + 'a) \<times> redis" where
  "redis_call cmd r =
     (case redis_faults r of
        [] \<Rightarrow> cmd r
      | f # fs \<Rightarrow>
          if f then (Inl (PyException ''ConnectionError'' ''Error connecting to redis''),
                     r\<lparr>redis_faults := fs\<rparr>)
          else cmd (r\<lparr>redis_faults := fs\<rparr>))"

definition WRONGTYPE :: exn where
  "WRONGTYPE = PyException ''ResponseError''
     ''WRONGTYPE Operation against a key holding the wrong kind of value''"

definition redis_lpush :: "string \<Rightarrow> string \<Rightarrow> redis \<Rightarrow> (exn + nat) \<times> redis" where
  "redis_lpush key v r =
     (case redis_lookup r key of
        None \<Rightarrow> (Inr 1, r\<lparr>store := (store r)(key \<mapsto> (RList [v], None))\<rparr>)
      | Some (RList xs, deadline) \<Rightarrow>
          (Inr (length xs + 1), r\<lparr>store := (store r)(key \<mapsto> (RList (v # xs), deadline))\<rparr>)
      | Some (RString x, deadline) \<Rightarrow> (Inl WRONGTYPE, r))"

definition redis_expire :: "string \<Rightarrow> nat \<Rightarrow> redis \<Rightarrow> (exn + bool) \<times> redis" where
  "redis_expire key seconds r =
     (case redis_lookup r key of
        None \<Rightarrow> (Inr False, r)
      | Some (v, deadline) \<Rightarrow>
          (Inr True, r\<lparr>store := (store r)(key \<mapsto> (v, Some (clock r + seconds)))\<rparr>))"

definition redis_set :: "string \<Rightarrow> string \<Rightarrow> nat \<Rightarrow> redis \<Rightarrow> (exn + bool) \<times> redis" where
  \<comment> \<open>\<^verbatim>\<open>set(key, value, ex=seconds)\<close>\<close>
  "redis_set key v seconds r =
     (Inr True, r\<lparr>store := (store r)(key \<mapsto> (RString v, Some (clock r + seconds)))\<rparr>)"

definition redis_get :: "string \<Rightarrow> redis \<Rightarrow> (exn + string option) \<times> redis" where
  "redis_get key r =
     (case redis_lookup r key of
        None \<Rightarrow> (Inr None, r)
      | Some (RString x, deadline) \<Rightarrow> (Inr (Some x), r)
      | Some (RList xs, deadline) \<Rightarrow> (Inl WRONGTYPE, r))"

definition redis_delete :: "string \<Rightarrow> redis \<Rightarrow> (exn + nat) \<times> redis" where
  "redis_delete key r =
     (Inr (case redis_lookup r key of None \<Rightarrow> 0 | Some e \<Rightarrow> 1),
      r\<lparr>store := (store r)(key := None)\<rparr>)"

subsection \<open>The application state\<close>

record websocket =
  ws_open :: bool

definition send_text :: "pyval \<Rightarrow> websocket \<Rightarrow> exn + unit" where
  "send_text msg ws =
     (if ws_open ws then Inr ()
      else Inl (PyException ''RuntimeError'' ''Cannot call send once a close message has been sent''))"

text \<open>
  The effects that leave the process, in the order in which they happen: a record
  acknowledged by the broker, a command the store executed, a text frame a socket took.
\<close>

datatype effect =
    Published string "string option"
  | StoreLPush string string
  | StoreExpire string nat
  | StoreSet string string nat
  | StoreDelete string
  | WsSent string pyval

record metrics_counters =
  IMAGE_UPLOADS :: nat
  ANALYSIS_ERRORS :: nat

text \<open>
  \<open>active_connections\<close> and \<open>redis_client\<close> are the two attributes of the
  \<^verbatim>\<open>ConnectionManager\<close>; \<open>metrics\<close> is \<open>None\<close> when \<^verbatim>\<open>import metrics\<close> failed
  (\<^verbatim>\<open>metrics_available = False\<close>). A \<^verbatim>\<open>dict\<close> iterates in insertion order, hence the
  association list.
\<close>

record rt_state =
  active_connections :: "(string \<times> websocket) list"
  redis_client :: redis
  rt_kafka_producer :: broker
  metrics :: "metrics_counters option"
  trace :: "effect list"

definition on_redis ::
  "effect \<Rightarrow> (redis \<Rightarrow> (exn + 'a) \<times> redis) \<Rightarrow> rt_state \<Rightarrow> (exn + 'a) \<times> rt_state" where
  "on_redis ev cmd s =
     (case redis_call cmd (redis_client s) of
        (Inl e, r') \<Rightarrow> (Inl e, s\<lparr>redis_client := r'\<rparr>)
      | (Inr v, r') \<Rightarrow> (Inr v, s\<lparr>redis_client := r', trace := trace s @ [ev]\<rparr>))"

subsection \<open>ConnectionManager\<close>

definition connect :: "websocket \<Rightarrow> string \<Rightarrow> rt_state \<Rightarrow> rt_state" where
  "connect ws user_id s =
     s\<lparr>active_connections := AList.update user_id ws (active_connections s)\<rparr>"

definition disconnect :: "string \<Rightarrow> rt_state \<Rightarrow> rt_state" where
  "disconnect user_id s =
     (let s1 = s\<lparr>active_connections := AList.delete user_id (active_connections s)\<rparr>;
          key = ''user_requests:'' @ user_id
      in snd (on_redis (StoreDelete key) (redis_delete key) s1))"

definition send_personal_message :: "pyval \<Rightarrow> string \<Rightarrow> rt_state \<Rightarrow> rt_state" where
  "send_personal_message msg user_id s =
     (case map_of (active_connections s) user_id of
        None \<Rightarrow> s
      | Some ws \<Rightarrow>
          (case send_text msg ws of
             Inr u \<Rightarrow> s\<lparr>trace := trace s @ [WsSent user_id msg]\<rparr>
           | Inl e \<Rightarrow> disconnect user_id s))"

definition broadcast :: "pyval \<Rightarrow> rt_state \<Rightarrow> rt_state" where
  "broadcast msg s =
     (let conns = active_connections s;
          sent = map (\<lambda>(user_id, connection). WsSent user_id msg)
                   (filter (\<lambda>(user_id, connection). ws_open connection) conns);
          disconnected_users =
            map fst (filter (\<lambda>(user_id, connection). \<not> ws_open connection) conns)
      in fold disconnect disconnected_users (s\<lparr>trace := trace s @ sent\<rparr>))"

definition add_request_for_user :: "string \<Rightarrow> string \<Rightarrow> rt_state \<Rightarrow> rt_state" where
  "add_request_for_user user_id request_id s =
     (let key = ''user_requests:'' @ user_id in
      case on_redis (StoreLPush key request_id) (redis_lpush key request_id) s of
        (Inl e, s1) \<Rightarrow> s1
      | (Inr n, s1) \<Rightarrow>
     (case on_redis (StoreExpire key 3600) (redis_expire key 3600) s1 of
        (Inl e, s2) \<Rightarrow> s2
      | (Inr ok, s2) \<Rightarrow>
     (let reverse_key = ''request_user:'' @ request_id in
      snd (on_redis (StoreSet reverse_key user_id 3600)
             (redis_set reverse_key user_id 3600) s2))))"

definition get_user_for_request :: "string \<Rightarrow> rt_state \<Rightarrow> string option \<times> rt_state" where
  "get_user_for_request request_id s =
     (let reverse_key = ''request_user:'' @ request_id in
      case redis_call (redis_get reverse_key) (redis_client s) of
        (Inl e, r') \<Rightarrow> (None, s\<lparr>redis_client := r'\<rparr>)
      | (Inr user_id, r') \<Rightarrow>
          (if truthy user_id then user_id else None, s\<lparr>redis_client := r'\<rparr>))"

subsection \<open>consume\_results.handle\_result\<close>

definition analysis_result_message :: "string \<Rightarrow> message \<Rightarrow> pyval" where
  "analysis_result_message request_id result_data =
     PDict [(''type'', PStr ''analysis_result''),
            (''request_id'', PStr request_id),
            (''data'', msg_to_py result_data)]"

definition system_stats_message :: "string \<Rightarrow> pyval" where
  "system_stats_message now =
     PDict [(''type'', PStr ''system_stats''),
            (''data'', PDict [(''total_processed'', PNum 1), (''timestamp'', PStr now)])]"

definition handle_result :: "string \<Rightarrow> message \<Rightarrow> rt_state \<Rightarrow> exn option \<times> rt_state" where
  "handle_result now result_data s =
     (case msg_request_id result_data of
        None \<Rightarrow> (Some (PyException ''KeyError'' ''request_id''), s)
      | Some request_id \<Rightarrow>
          (case get_user_for_request request_id s of
             (None, s1) \<Rightarrow> (None, s1)
           | (Some user_id, s1) \<Rightarrow>
               if user_id \<noteq> [] then
                 (None,
                  broadcast (system_stats_message now)
                    (send_personal_message
                       (analysis_result_message request_id result_data) user_id s1))
               else (None, s1)))"

subsection \<open>POST /upload\_image\<close>

text \<open>
  The parsed form: \<open>form_file\<close> is \<open>None\<close> when the field \<^verbatim>\<open>file\<close> is missing or is not
  an uploaded file, \<open>form_user_id\<close> is \<open>None\<close> when the field \<^verbatim>\<open>user_id\<close> is missing.
\<close>

record upload_form =
  form_file :: "upload option"
  form_user_id :: "string option"

definition kafka_send_image ::
  "string \<Rightarrow> string \<Rightarrow> 8 word list \<Rightarrow> string option \<Rightarrow> string option \<Rightarrow> rt_state
     \<Rightarrow> (exn + string) \<times> rt_state" where
  \<comment> \<open>\<^verbatim>\<open>kafka_producer.send_image_for_analysis(...)\<close> on the application state\<close>
  "kafka_send_image uuid now image_data filename user_id s =
     (case send_image_for_analysis uuid now image_data filename user_id (rt_kafka_producer s) of
        (Inl e, b') \<Rightarrow> (Inl e, s\<lparr>rt_kafka_producer := b'\<rparr>)
      | (Inr request_id, b') \<Rightarrow>
          (Inr request_id,
           s\<lparr>rt_kafka_producer := b',
             trace := trace s @ [Published IMAGE_UPLOAD_TOPIC (key_serializer request_id)]\<rparr>))"

definition record_upload :: "rt_state \<Rightarrow> rt_state" where
  "record_upload s =
     (case metrics s of
        None \<Rightarrow> s
      | Some m \<Rightarrow> s\<lparr>metrics := Some (m\<lparr>IMAGE_UPLOADS := IMAGE_UPLOADS m + 1\<rparr>)\<rparr>)"

definition record_error :: "rt_state \<Rightarrow> rt_state" where
  "record_error s =
     (case metrics s of
        None \<Rightarrow> s
      | Some m \<Rightarrow> s\<lparr>metrics := Some (m\<lparr>ANALYSIS_ERRORS := ANALYSIS_ERRORS m + 1\<rparr>)\<rparr>)"

definition upload_received_message :: "string \<Rightarrow> string option \<Rightarrow> pyval" where
  "upload_received_message request_id filename =
     PDict [(''type'', PStr ''upload_received''),
            (''request_id'', PStr request_id),
            (''filename'', (case filename of None \<Rightarrow> PNone | Some f \<Rightarrow> PStr f)),
            (''message'', PStr ''Image received and queued for processing'')]"

definition upload_image_try ::
  "string \<Rightarrow> string \<Rightarrow> upload_form \<Rightarrow> rt_state \<Rightarrow> (exn + pyval) \<times> rt_state" where
  "upload_image_try uuid now form s =
     (let user_id = (case form_user_id form of None \<Rightarrow> ''anonymous'' | Some u \<Rightarrow> u) in
      case form_file form of
        None \<Rightarrow> (Inl (HTTPException 400 ''No file provided''), s)
      | Some file \<Rightarrow>
     (case upl_content_type file of
        None \<Rightarrow> (Inl (PyException ''AttributeError''
                        ''NoneType object has no attribute startswith''), s)
      | Some content_type \<Rightarrow>
     if \<not> startswith content_type ''image/'' then
       (Inl (HTTPException 400 ''File must be an image''), s)
     else
       let image_data = upl_data file in
       if length image_data > 10 * 1024 * 1024 then
         (Inl (HTTPException 400 ''Image too large (max 10MB)''), s)
       else
         (case kafka_send_image uuid now image_data (upl_filename file) (Some user_id) s of
            (Inl e, s1) \<Rightarrow> (Inl e, s1)
          | (Inr request_id, s1) \<Rightarrow>
              (Inr (PDict [(''status'', PStr ''success''),
                           (''request_id'', PStr request_id),
                           (''message'', PStr ''Image uploaded and queued for processing'')]),
               record_upload
                 (send_personal_message
                    (upload_received_message request_id (upl_filename file)) user_id
                    (add_request_for_user user_id request_id s1))))))"

definition upload_image ::
  "string \<Rightarrow> string \<Rightarrow> upload_form \<Rightarrow> rt_state \<Rightarrow> (exn + pyval) \<times> rt_state" where
  "upload_image uuid now form s =
     (case upload_image_try uuid now form s of
        (Inl e, s') \<Rightarrow>
          if is_Exception e then (Inl (HTTPException 500 (str_exn e)), record_error s')
          else (Inl e, s')
      | (Inr body, s') \<Rightarrow> (Inr body, s'))"

subsection \<open>GET /stats\<close>

text \<open>
  Attribute lookup on the \<^verbatim>\<open>ConnectionManager\<close> instance: \<^verbatim>\<open>__init__\<close> assigns
  \<^verbatim>\<open>active_connections\<close> and \<^verbatim>\<open>redis_client\<close>, the class body defines six methods, and no
  code assigns any other attribute. Any other name raises \<^verbatim>\<open>AttributeError\<close>.
\<close>

datatype attr_value =
    AttrConnections "(string \<times> websocket) list"
  | AttrRedis redis
  | AttrMethod

definition ConnectionManager_methods :: "string list" where
  "ConnectionManager_methods =
     [''connect'', ''disconnect'', ''send_personal_message'', ''broadcast'',
      ''add_request_for_user'', ''get_user_for_request'']"

definition manager_getattr :: "string \<Rightarrow> rt_state \<Rightarrow> exn + attr_value" where
  "manager_getattr name s =
     (if name = ''active_connections'' then Inr (AttrConnections (active_connections s))
      else if name = ''redis_client'' then Inr (AttrRedis (redis_client s))
      else if name \<in> set ConnectionManager_methods then Inr AttrMethod
      else Inl (PyException ''AttributeError''
                  (''ConnectionManager object has no attribute '' @ name)))"

fun py_len :: "attr_value \<Rightarrow> exn + nat" where
  "py_len (AttrConnections conns) = Inr (length conns)"
| "py_len (AttrRedis r) = Inl (PyException ''TypeError'' ''object of type Redis has no len()'')"
| "py_len AttrMethod = Inl (PyException ''TypeError'' ''object of type method has no len()'')"

definition get_stats :: "string \<Rightarrow> rt_state \<Rightarrow> exn + pyval" where
  "get_stats now s =
     (case manager_getattr ''active_connections'' s of
        Inl e \<Rightarrow> Inl e
      | Inr conns \<Rightarrow>
     (case py_len conns of
        Inl e \<Rightarrow> Inl e
      | Inr n_connections \<Rightarrow>
     (case manager_getattr ''user_requests'' s of
        Inl e \<Rightarrow> Inl e
      | Inr reqs \<Rightarrow>
     (case py_len reqs of
        Inl e \<Rightarrow> Inl e
      | Inr n_users \<Rightarrow>
          Inr (PDict [(''active_connections'', PNum (of_nat n_connections)),
                      (''total_users'', PNum (of_nat n_users)),
                      (''kafka_connected'', PBool True),
                      (''timestamp'', PStr now)])))))"

section \<open>Notions used in the statements\<close>

text \<open>The content type of an upload indicates an image.\<close>

definition content_type_indicates_image :: "upload \<Rightarrow> bool" where
  "content_type_indicates_image upl =
     (case upl_content_type upl of None \<Rightarrow> False | Some ct \<Rightarrow> startswith ct ''image/'')"

text \<open>
  The text frames that sockets took, as pairs of the client and the frame, in the order
  of the trace.
\<close>

fun sent_frames :: "effect list \<Rightarrow> (string \<times> pyval) list" where
  "sent_frames [] = []"
| "sent_frames (WsSent user_id frame # tr) = (user_id, frame) # sent_frames tr"
| "sent_frames (e # tr) = sent_frames tr"

text \<open>
  A callback for the examples of the consume loop: it keeps the messages it is invoked
  on, in order, and fails with a \<^verbatim>\<open>ValueError\<close> on the request \<open>bad\<close>.
\<close>

definition failing_on ::
  "string \<Rightarrow> message \<Rightarrow> message list \<Rightarrow> exn option \<times> message list" where
  "failing_on bad m seen =
     (if msg_request_id m = Some bad
      then Some (PyException ''ValueError'' ''cannot identify image file'')
      else None,
      seen @ [m])"




section \<open>Ingress: what an upload returns\<close>

text \<open>
  Claim C1. For every upload whose content type indicates an image and whose payload is
  at most 10 MB, \<^verbatim>\<open>POST /analyze-image\<close> publishes the job and answers with a fresh
  request id and status \<^verbatim>\<open>accepted\<close>. The code does not: the handler calls
  \<open>send_image_for_analysis\<close> with the keyword \<^verbatim>\<open>request_id\<close>, which the method does not
  take, so the call raises \<^verbatim>\<open>TypeError\<close>, the handler turns it into status 500, and
  nothing is published. Here for a three-byte JPEG upload on an idle API.
\<close>

theorem analyze_image_valid_upload_fails:
  "analyze_image ''u1'' ''u2'' ''t0''
     \<lparr>upl_filename = Some ''cat.jpg'', upl_content_type = Some ''image/jpeg'',
      upl_data = [255, 216, 255]\<rparr>
     \<lparr>analysis_results = Map.empty, pending_requests = Map.empty,
      kafka_producer = \<lparr>records = [], send_faults = []\<rparr>\<rparr>
   = (Inl (HTTPException 500
            ''send_image_for_analysis() got an unexpected keyword argument request_id''),
      \<lparr>analysis_results = Map.empty,
       pending_requests =
         [''u1'' \<mapsto> \<lparr>pi_filename = Some ''cat.jpg'', pi_content_type = ''image/jpeg'',
                      pi_size = 3, pi_submitted_at = ''t0'', pi_status = ''submitted''\<rparr>],
       kafka_producer = \<lparr>records = [], send_faults = []\<rparr>\<rparr>)"
  by (simp add: analyze_image_def analyze_image_try_def startswith_def unexpected_keyword_def
        send_image_for_analysis_params_def numeral_3_eq_3)

text \<open>The same holds for every upload that passes validation, whatever the state.\<close>

lemma analyze_image_never_accepts:
  assumes "content_type_indicates_image upl" and "length (upl_data upl) \<le> 10 * 1024 * 1024"
  shows "http_status (fst (analyze_image uuid uuid' now upl s)) = 500"
    and "kafka_producer (snd (analyze_image uuid uuid' now upl s)) = kafka_producer s"
  using assms
  by (auto simp: analyze_image_def analyze_image_try_def content_type_indicates_image_def
        unexpected_keyword_def send_image_for_analysis_params_def Let_def
      split: option.splits)

text \<open>
  Claim C2. An upload whose content type does not indicate an image, or whose payload
  exceeds 10 MB, is answered with status 400. The code raises \<^verbatim>\<open>HTTPException(400)\<close>
  inside the \<^verbatim>\<open>try\<close> block whose handler \<^verbatim>\<open>except Exception\<close> catches it and raises
  \<^verbatim>\<open>HTTPException(500)\<close> in its place, in both upload endpoints. Here for a
  \<^verbatim>\<open>text/plain\<close> upload.
\<close>

theorem rejected_upload_answered_500:
  "fst (analyze_image ''u1'' ''u2'' ''t0''
          \<lparr>upl_filename = Some ''notes.txt'', upl_content_type = Some ''text/plain'',
           upl_data = [104, 105]\<rparr>
          \<lparr>analysis_results = Map.empty, pending_requests = Map.empty,
           kafka_producer = \<lparr>records = [], send_faults = []\<rparr>\<rparr>)
     = Inl (HTTPException 500 ''400: File must be an image'')
   \<and> fst (upload_image ''u1'' ''t0''
          \<lparr>form_file = Some \<lparr>upl_filename = Some ''notes.txt'',
                              upl_content_type = Some ''text/plain'', upl_data = [104, 105]\<rparr>,
           form_user_id = Some ''alice''\<rparr>
          \<lparr>active_connections = [],
           redis_client = \<lparr>store = Map.empty, clock = 0, redis_faults = []\<rparr>,
           rt_kafka_producer = \<lparr>records = [], send_faults = []\<rparr>,
           metrics = None, trace = []\<rparr>)
     = Inl (HTTPException 500 ''400: File must be an image'')"
  by (simp add: analyze_image_def analyze_image_try_def upload_image_def upload_image_try_def
        startswith_def show_nat.simps)

text \<open>Every rejection by validation is answered with 500, never 400.\<close>

lemma rejected_upload_status:
  assumes "\<not> content_type_indicates_image upl \<or> length (upl_data upl) > 10 * 1024 * 1024"
  shows "http_status (fst (analyze_image uuid uuid' now upl s)) = 500"
    and "http_status (fst (upload_image uuid now \<lparr>form_file = Some upl, form_user_id = uid\<rparr> t))
           = 500"
  using assms
  by (auto simp: analyze_image_def analyze_image_try_def upload_image_def upload_image_try_def
        content_type_indicates_image_def Let_def
      split: option.splits)

text \<open>
  Claim C6. An upload rejected by validation (bad content type or payload over 10 MB)
  sends nothing to the broker and writes no correlation entry: in the polling API the
  whole state is as before, in the realtime application only the error counter moves, so
  the producer, the store, the connections and the trace of effects are as before.
\<close>

theorem rejected_upload_leaves_broker_and_store:
  assumes "\<not> content_type_indicates_image upl \<or> length (upl_data upl) > 10 * 1024 * 1024"
  shows "snd (analyze_image uuid uuid' now upl s) = s
       \<and> snd (upload_image uuid now \<lparr>form_file = Some upl, form_user_id = uid\<rparr> t)
           = record_error t
       \<and> rt_kafka_producer (record_error t) = rt_kafka_producer t
       \<and> redis_client (record_error t) = redis_client t
       \<and> trace (record_error t) = trace t"
  using assms
  by (auto simp: analyze_image_def analyze_image_try_def upload_image_def upload_image_try_def
        content_type_indicates_image_def record_error_def Let_def
      split: option.splits)

theorem rejected_upload_leaves_broker_and_store_witness:
  "snd (analyze_image ''u1'' ''u2'' ''t0''
          \<lparr>upl_filename = Some ''big.jpg'', upl_content_type = Some ''image/jpeg'',
           upl_data = replicate 11534336 0\<rparr>
          \<lparr>analysis_results = Map.empty, pending_requests = Map.empty,
           kafka_producer = \<lparr>records = [], send_faults = []\<rparr>\<rparr>)
     = \<lparr>analysis_results = Map.empty, pending_requests = Map.empty,
        kafka_producer = \<lparr>records = [], send_faults = []\<rparr>\<rparr>
   \<and> snd (upload_image ''u1'' ''t0''
          \<lparr>form_file = Some \<lparr>upl_filename = Some ''big.jpg'',
                              upl_content_type = Some ''image/jpeg'',
                              upl_data = replicate 11534336 0\<rparr>,
           form_user_id = Some ''alice''\<rparr>
          \<lparr>active_connections = [],
           redis_client = \<lparr>store = Map.empty, clock = 0, redis_faults = []\<rparr>,
           rt_kafka_producer = \<lparr>records = [], send_faults = []\<rparr>,
           metrics = None, trace = []\<rparr>)
     = \<lparr>active_connections = [],
        redis_client = \<lparr>store = Map.empty, clock = 0, redis_faults = []\<rparr>,
        rt_kafka_producer = \<lparr>records = [], send_faults = []\<rparr>,
        metrics = None, trace = []\<rparr>"
  using rejected_upload_leaves_broker_and_store
    [where upl = "\<lparr>upl_filename = Some ''big.jpg'', upl_content_type = Some ''image/jpeg'',
                    upl_data = replicate 11534336 0\<rparr>"
       and uuid = "''u1''" and uuid' = "''u2''" and now = "''t0''" and uid = "Some ''alice''"
       and s = "\<lparr>analysis_results = Map.empty, pending_requests = Map.empty,
                  kafka_producer = \<lparr>records = [], send_faults = []\<rparr>\<rparr>"
       and t = "\<lparr>active_connections = [],
                  redis_client = \<lparr>store = Map.empty, clock = 0, redis_faults = []\<rparr>,
                  rt_kafka_producer = \<lparr>records = [], send_faults = []\<rparr>,
                  metrics = None, trace = []\<rparr>"]
  by (simp add: record_error_def)

section \<open>The orchestrator and its consume loop\<close>

text \<open>
  With a broker that takes the send, \<open>process_image_message\<close> publishes exactly one
  result, keyed by the request id of the job; after a failed analysis the result holds
  the error text and no predictions, and its status is \<^verbatim>\<open>failed\<close> exactly when that text
  is not empty.
\<close>

lemma process_image_message_publishes_one:
  assumes "msg_request_id job = Some request_id"
    and "map_of (msg_fields job) ''user_id'' = Some user_id"
    and "map_of (msg_fields job) ''filename'' = Some filename"
    and "map_of (msg_fields job) ''image_data'' = Some img"
    and "clip img = Inl e" and "is_Exception e"
    and "send_faults b = []"
  shows "process_image_message clip now job b =
           (None,
            b\<lparr>records := records b @
                 [(ANALYSIS_RESULTS_TOPIC, key_serializer request_id,
                   \<lparr>msg_request_id = Some request_id,
                    msg_fields =
                      [(''user_id'', user_id), (''results'', PList []),
                       (''processing_time'', PNone), (''error'', PStr (str_exn e)),
                       (''timestamp'', PStr now),
                       (''status'',
                          PStr (if str_exn e = [] then ''completed'' else ''failed''))]\<rparr>)]\<rparr>)"
  using assms
  by (simp add: process_image_message_def send_error_result_def send_analysis_result_def
        producer_send_def truthy_def)

text \<open>After a successful analysis the one result carries the predictions.\<close>

lemma process_image_message_success_publishes_one:
  assumes "msg_request_id job = Some request_id"
    and "map_of (msg_fields job) ''user_id'' = Some user_id"
    and "map_of (msg_fields job) ''filename'' = Some filename"
    and "map_of (msg_fields job) ''image_data'' = Some img"
    and "clip img = Inr (results, PNum seconds)"
    and "send_faults b = []"
  shows "process_image_message clip now job b =
           (None,
            b\<lparr>records := records b @
                 [(ANALYSIS_RESULTS_TOPIC, key_serializer request_id,
                   \<lparr>msg_request_id = Some request_id,
                    msg_fields =
                      [(''user_id'', user_id), (''results'', results),
                       (''processing_time'', PNum seconds), (''error'', PNone),
                       (''timestamp'', PStr now),
                       (''status'', PStr ''completed'')]\<rparr>)]\<rparr>)"
  using assms
  by (simp add: process_image_message_def send_analysis_result_def
        producer_send_def truthy_def)

text \<open>
  Claim C3. For every job the orchestrator dequeues it publishes exactly one result with
  the same request id, and after a failed analysis that result has the error text, an
  empty result list and status \<^verbatim>\<open>failed\<close>. The status is computed as
  \<^verbatim>\<open>'completed' if not error else 'failed'\<close> with \<^verbatim>\<open>error=str(e)\<close>: an exception whose
  text is empty, such as the \<^verbatim>\<open>MemoryError()\<close> the interpreter raises, is published with
  status \<^verbatim>\<open>completed\<close>.
\<close>

theorem failed_analysis_published_as_completed:
  "process_image_message (\<lambda>img. Inl (PyException ''MemoryError'' [])) ''t1''
     \<lparr>msg_request_id = Some ''r2'',
      msg_fields = [(''user_id'', PStr ''alice''), (''filename'', PStr ''cat.jpg''),
                    (''image_data'', PStr ''/9j/''), (''timestamp'', PStr ''t0''),
                    (''status'', PStr ''pending'')]\<rparr>
     \<lparr>records = [], send_faults = []\<rparr>
   = (None,
      \<lparr>records = [(''analysis-results'', Some ''r2'',
          \<lparr>msg_request_id = Some ''r2'',
           msg_fields = [(''user_id'', PStr ''alice''), (''results'', PList []),
                         (''processing_time'', PNone), (''error'', PStr []),
                         (''timestamp'', PStr ''t1''), (''status'', PStr ''completed'')]\<rparr>)],
       send_faults = []\<rparr>)"
  by (simp add: process_image_message_def send_error_result_def send_analysis_result_def
        producer_send_def key_serializer_def truthy_def ANALYSIS_RESULTS_TOPIC_def)

text \<open>
  Whatever \<open>process_image_message\<close> raises is an instance of \<^verbatim>\<open>Exception\<close> when the
  analysis raises nothing else: the orchestrator's callback fails only in ways the consume
  loop catches.
\<close>

lemma producer_send_raises_Exception:
  "producer_send topic key val b = (Inl e, b') \<Longrightarrow> is_Exception e"
  by (auto simp: producer_send_def split: list.splits if_splits)

lemma send_error_result_raises_Exception:
  "send_error_result request_id user_id e now b = (Some e', b') \<Longrightarrow> is_Exception e'"
  by (auto simp: send_error_result_def send_analysis_result_def
           split: prod.splits sum.splits dest: producer_send_raises_Exception)

lemma process_image_message_raises_Exception:
  assumes "\<And>img e. clip img = Inl e \<Longrightarrow> is_Exception e"
    and "process_image_message clip now job b = (Some e, b')"
  shows "is_Exception e"
  using assms(2)
  by (auto simp: process_image_message_def send_analysis_result_def
           split: option.splits sum.splits prod.splits if_splits
           dest: assms(1) send_error_result_raises_Exception producer_send_raises_Exception)

text \<open>
  Claim C9. For every sequence of dequeued messages, an exception raised while one
  message is processed is caught inside the loop of \<open>consume_images\<close>, and the loop goes
  on to invoke the callback on every later message. Not on every one: before it calls
  the callback the loop reads \<^verbatim>\<open>image_data['request_id']\<close> for its log line, inside the
  same \<^verbatim>\<open>try\<close>, so a message without that key raises \<^verbatim>\<open>KeyError\<close> there and is
  skipped. Here the callback fails on \<^verbatim>\<open>r1\<close>; of the two later messages it is invoked on
  \<^verbatim>\<open>r3\<close> only, as the messages it has kept show.
\<close>

theorem consume_images_skips_message_without_request_id:
  "consume_images (failing_on ''r1'')
     [\<lparr>msg_request_id = Some ''r1'', msg_fields = []\<rparr>,
      \<lparr>msg_request_id = None, msg_fields = [(''user_id'', PStr ''x'')]\<rparr>,
      \<lparr>msg_request_id = Some ''r3'', msg_fields = []\<rparr>] []
   = (Exhausted,
      [\<lparr>msg_request_id = Some ''r1'', msg_fields = []\<rparr>,
       \<lparr>msg_request_id = Some ''r3'', msg_fields = []\<rparr>],
      [\<lparr>msg_request_id = Some ''r1'', msg_fields = []\<rparr>,
       \<lparr>msg_request_id = Some ''r3'', msg_fields = []\<rparr>])"
  by (simp add: failing_on_def)

text \<open>
  Claim C9, as amended. For every sequence of dequeued messages and every callback
  whose failures are instances of \<^verbatim>\<open>Exception\<close>, an exception raised while one message
  is processed is caught inside the loop, which runs to the end of the sequence and
  invokes the callback, in order, on every message that carries a request id, the
  later ones included: the state it leaves is the one obtained by running the callback
  on each of these messages in turn, whether or not it raised.
\<close>

theorem consume_images_survives_failures:
  assumes "\<And>m s e s'. callback m s = (Some e, s') \<Longrightarrow> is_Exception e"
  shows "consume_images callback msgs s =
           (Exhausted,
            filter (\<lambda>m. msg_request_id m \<noteq> None) msgs,
            foldl (\<lambda>st m. snd (callback m st)) s
              (filter (\<lambda>m. msg_request_id m \<noteq> None) msgs))"
proof (induction msgs arbitrary: s)
  case Nil
  show ?case by simp
next
  case (Cons m ms)
  show ?case
  proof (cases "msg_request_id m")
    case None
    with Cons.IH [of s] show ?thesis by simp
  next
    case (Some r)
    obtain res s' where cb: "callback m s = (res, s')"
      by (cases "callback m s")
    show ?thesis
    proof (cases res)
      case None
      with Some cb Cons.IH [of s'] show ?thesis by simp
    next
      case (Some e)
      with cb assms have "is_Exception e" by blast
      with Some \<open>msg_request_id m = Some r\<close> cb Cons.IH [of s'] show ?thesis by simp
    qed
  qed
qed

theorem consume_images_survives_failures_witness:
  "consume_images (failing_on ''r1'')
     [\<lparr>msg_request_id = Some ''r1'', msg_fields = []\<rparr>,
      \<lparr>msg_request_id = Some ''r2'', msg_fields = []\<rparr>,
      \<lparr>msg_request_id = Some ''r3'', msg_fields = []\<rparr>] []
   = (Exhausted,
      [\<lparr>msg_request_id = Some ''r1'', msg_fields = []\<rparr>,
       \<lparr>msg_request_id = Some ''r2'', msg_fields = []\<rparr>,
       \<lparr>msg_request_id = Some ''r3'', msg_fields = []\<rparr>],
      [\<lparr>msg_request_id = Some ''r1'', msg_fields = []\<rparr>,
       \<lparr>msg_request_id = Some ''r2'', msg_fields = []\<rparr>,
       \<lparr>msg_request_id = Some ''r3'', msg_fields = []\<rparr>])"
  using consume_images_survives_failures
    [of "failing_on ''r1''"
        "[\<lparr>msg_request_id = Some ''r1'', msg_fields = []\<rparr>,
          \<lparr>msg_request_id = Some ''r2'', msg_fields = []\<rparr>,
          \<lparr>msg_request_id = Some ''r3'', msg_fields = []\<rparr>]"
        "[]"]
  by (auto simp: failing_on_def split: if_splits)

section \<open>The polling API: results and status\<close>

text \<open>
  Claim C7. After a successful result for a request id has been consumed and stored,
  \<^verbatim>\<open>GET /result/{request_id}\<close> returns status \<^verbatim>\<open>completed\<close> with the predictions published
  in that result. \<open>send_analysis_result\<close> publishes the predictions under the key
  \<^verbatim>\<open>results\<close>, \<open>get_result\<close> reads the key \<^verbatim>\<open>predictions\<close>: the answer is \<^verbatim>\<open>completed\<close> with
  an empty prediction list. Here the result \<^verbatim>\<open>[{label: cat, confidence: 91.2}]\<close> for
  \<^verbatim>\<open>r1\<close> goes through the broker and the results consumer into the API.
\<close>

theorem get_result_drops_published_predictions:
  "get_result ''r1''
     (snd (snd (consume_results (\<lambda>result_data s. (None, handle_analysis_result result_data s))
        (topic_values ANALYSIS_RESULTS_TOPIC
           (snd (send_analysis_result ''r1''
                   (PList [PDict [(''label'', PStr ''cat''), (''confidence'', PNum (912 / 10))]])
                   (PStr ''api-user'') (PNum (3 / 2)) None ''t1''
                   \<lparr>records = [], send_faults = []\<rparr>)))
        \<lparr>analysis_results = Map.empty, pending_requests = Map.empty,
         kafka_producer = \<lparr>records = [], send_faults = []\<rparr>\<rparr>)))
   = Inr [(''request_id'', PStr ''r1''),
          (''status'', PStr ''completed''),
          (''analysis'', PDict
             [(''predictions'', PList []),
              (''confidence_scores'', PList []),
              (''top_prediction'', PNone),
              (''processing_time_seconds'', PNone),
              (''model_info'', PDict [])]),
          (''metadata'', PDict
             [(''filename'', PNone),
              (''analyzed_at'', PStr ''t1''),
              (''image_dimensions'', PNone)])]"
  by (simp add: send_analysis_result_def producer_send_def key_serializer_def truthy_def
        topic_values_def ANALYSIS_RESULTS_TOPIC_def handle_analysis_result_def
        get_result_def dict_get_def)

text \<open>A status that is neither \<^verbatim>\<open>pending\<close> nor \<^verbatim>\<open>processing\<close> stays so under every event.\<close>

lemma api_step_keeps_terminal:
  assumes "status_of (get_status request_id s) \<noteq> Some ''pending''
         \<and> status_of (get_status request_id s) \<noteq> Some ''processing''"
  shows "status_of (get_status request_id (api_step ev s)) \<noteq> Some ''pending''
       \<and> status_of (get_status request_id (api_step ev s)) \<noteq> Some ''processing''"
proof (cases ev)
  case (ResultArrival result_data)
  with assms show ?thesis
    by (auto simp: handle_analysis_result_def get_status_def status_of_def
             split: option.splits if_splits)
next
  case (StatusRead r)
  with assms show ?thesis by simp
next
  case Cleanup
  then show ?thesis
    by (simp add: cleanup_old_results_def get_status_def status_of_def Let_def)
qed

lemma api_run_keeps_terminal:
  "status_of (get_status request_id s) \<noteq> Some ''pending''
     \<and> status_of (get_status request_id s) \<noteq> Some ''processing''
   \<Longrightarrow> status_of (get_status request_id (api_run evs s)) \<noteq> Some ''pending''
     \<and> status_of (get_status request_id (api_run evs s)) \<noteq> Some ''processing''"
proof (induction evs arbitrary: s)
  case Nil
  then show ?case by simp
next
  case (Cons ev evs)
  from api_step_keeps_terminal [OF Cons.prems]
  show ?case using Cons.IH by simp
qed

text \<open>
  Claim C8. Once \<^verbatim>\<open>GET /status/{request_id}\<close> has reported \<^verbatim>\<open>completed\<close>, no later status
  read for that request id reports \<^verbatim>\<open>pending\<close> or \<^verbatim>\<open>processing\<close>, whatever results arrive,
  statuses are read and cleanups are called in between.
\<close>

theorem status_never_regresses:
  assumes "status_of (get_status request_id s) = Some ''completed''"
  shows "status_of (get_status request_id (api_run evs s)) \<noteq> Some ''pending''
       \<and> status_of (get_status request_id (api_run evs s)) \<noteq> Some ''processing''"
  using assms by (intro api_run_keeps_terminal) simp

theorem status_never_regresses_witness:
  "status_of (get_status ''r1''
      (api_run [StatusRead ''r1'',
                ResultArrival \<lparr>msg_request_id = Some ''r2'', msg_fields = []\<rparr>,
                Cleanup, StatusRead ''r1'']
         \<lparr>analysis_results = [''r1'' \<mapsto> \<lparr>msg_request_id = Some ''r1'', msg_fields = []\<rparr>],
          pending_requests = Map.empty,
          kafka_producer = \<lparr>records = [], send_faults = []\<rparr>\<rparr>)) \<noteq> Some ''processing''"
  using status_never_regresses
    [of "''r1''"
        "\<lparr>analysis_results = [''r1'' \<mapsto> \<lparr>msg_request_id = Some ''r1'', msg_fields = []\<rparr>],
          pending_requests = Map.empty,
          kafka_producer = \<lparr>records = [], send_faults = []\<rparr>\<rparr>"
        "[StatusRead ''r1'',
          ResultArrival \<lparr>msg_request_id = Some ''r2'', msg_fields = []\<rparr>,
          Cleanup, StatusRead ''r1'']"]
  by (simp add: get_status_def status_of_def)

section \<open>The realtime application\<close>

text \<open>
  Claim C10. Every call of \<^verbatim>\<open>GET /stats\<close> on the realtime application raises
  \<^verbatim>\<open>AttributeError\<close>, answered as status 500: the handler reads
  \<^verbatim>\<open>manager.user_requests\<close>, which the \<^verbatim>\<open>ConnectionManager\<close> never defines.
\<close>

theorem get_stats_raises_AttributeError:
  "get_stats now s =
     Inl (PyException ''AttributeError''
            ''ConnectionManager object has no attribute user_requests'')
   \<and> http_status (get_stats now s) = 500"
  by (simp add: get_stats_def manager_getattr_def ConnectionManager_methods_def)

subsection \<open>Delivery of results\<close>

text \<open>
  Which frames each step sends: disconnecting a client sends none, a broadcast sends
  its frame to every client whose socket is open, and \<open>send_personal_message\<close> sends its
  frame to the addressee when the registry holds an open socket for it and removes the
  addressee from the registry when the socket is closed.
\<close>

lemma sent_frames_append: "sent_frames (tr @ tr') = sent_frames tr @ sent_frames tr'"
  by (induction tr rule: sent_frames.induct) simp_all

lemma on_redis_trace_cases:
  "trace (snd (on_redis ev cmd s)) = trace s \<or> trace (snd (on_redis ev cmd s)) = trace s @ [ev]"
  by (simp add: on_redis_def split: prod.splits sum.splits)

lemma on_redis_connections:
  "active_connections (snd (on_redis ev cmd s)) = active_connections s"
  by (simp add: on_redis_def split: prod.splits sum.splits)

lemma disconnect_sent_frames [simp]:
  "sent_frames (trace (disconnect user_id s)) = sent_frames (trace s)"
proof -
  let ?s1 = "s\<lparr>active_connections := AList.delete user_id (active_connections s)\<rparr>"
  let ?key = "''user_requests:'' @ user_id"
  from on_redis_trace_cases [of "StoreDelete ?key" "redis_delete ?key" ?s1]
  show ?thesis
    by (auto simp: disconnect_def Let_def sent_frames_append)
qed

lemma disconnect_connections:
  "active_connections (disconnect user_id s) = AList.delete user_id (active_connections s)"
  by (simp add: disconnect_def Let_def on_redis_connections)

lemma fold_disconnect_sent_frames [simp]:
  "sent_frames (trace (fold disconnect users s)) = sent_frames (trace s)"
  by (induction users arbitrary: s) simp_all

lemma sent_frames_of_sends:
  "sent_frames (map (\<lambda>(user_id, connection). WsSent user_id frame) conns)
     = map (\<lambda>(user_id, connection). (user_id, frame)) conns"
  by (induction conns) auto

lemma broadcast_sent_frames:
  "sent_frames (trace (broadcast frame s)) =
     sent_frames (trace s)
     @ map (\<lambda>(user_id, connection). (user_id, frame))
         (filter (\<lambda>(user_id, connection). ws_open connection) (active_connections s))"
  by (simp add: broadcast_def Let_def sent_frames_append sent_frames_of_sends)

lemma send_personal_message_sent_frames:
  "sent_frames (trace (send_personal_message frame user_id s)) =
     sent_frames (trace s) @
       (case map_of (active_connections s) user_id of
          None \<Rightarrow> []
        | Some ws \<Rightarrow> if ws_open ws then [(user_id, frame)] else [])"
  by (simp add: send_personal_message_def send_text_def sent_frames_append split: option.splits)

lemma send_personal_message_connections:
  "active_connections (send_personal_message frame user_id s) =
     (case map_of (active_connections s) user_id of
        None \<Rightarrow> active_connections s
      | Some ws \<Rightarrow> if ws_open ws then active_connections s
                   else AList.delete user_id (active_connections s))"
  by (simp add: send_personal_message_def send_text_def disconnect_connections
           split: option.splits)

lemma get_user_for_request_state:
  "active_connections (snd (get_user_for_request request_id s)) = active_connections s
   \<and> trace (snd (get_user_for_request request_id s)) = trace s"
  by (simp add: get_user_for_request_def Let_def split: prod.splits sum.splits)

lemma get_user_for_request_nonempty:
  "get_user_for_request request_id s = (Some user_id, s1) \<Longrightarrow> user_id \<noteq> []"
  by (auto simp: get_user_for_request_def Let_def truthy_def
           split: prod.splits sum.splits if_splits option.splits)

text \<open>
  Claim C4. For every result the router consumes, the result is delivered over a client
  connection if and only if the store lookup of the request id returns an owner and that
  owner has a live connection in the local registry; when the lookup returns nothing or
  raises, delivery is a no-op, and no error leaves the handler. The statement lists
  every frame \<open>handle_result\<close> sends. The frame of type \<^verbatim>\<open>analysis_result\<close>, whose \<^verbatim>\<open>data\<close>
  are the entries of the consumed result, is sent exactly when the lookup finds an owner
  for whom the registry holds an open socket, and then once, to that owner. Every other
  frame is the \<^verbatim>\<open>system_stats\<close> broadcast, which holds a counter and a timestamp and
  nothing of the result; it goes to the open sockets when an owner was found. When the
  lookup finds nobody (which includes a failing store, answered \<open>None\<close> by
  \<open>get_user_for_request\<close>) no frame is sent at all, and the trace and the registry are
  as before.
\<close>

theorem handle_result_delivers_iff_owner_connected:
  assumes "msg_request_id result_data = Some request_id"
  shows "fst (handle_result now result_data s) = None
       \<and> sent_frames (trace (snd (handle_result now result_data s)))
          = sent_frames (trace s)
            @ (case fst (get_user_for_request request_id s) of
                 None \<Rightarrow> []
               | Some owner \<Rightarrow>
                   (case map_of (active_connections s) owner of
                      None \<Rightarrow>
                        map (\<lambda>(user_id, connection).
                               (user_id,
                                PDict [(''type'', PStr ''system_stats''),
                                       (''data'', PDict [(''total_processed'', PNum 1),
                                                         (''timestamp'', PStr now)])]))
                          (filter (\<lambda>(user_id, connection). ws_open connection)
                             (active_connections s))
                    | Some ws \<Rightarrow>
                        if ws_open ws then
                          (owner,
                           PDict [(''type'', PStr ''analysis_result''),
                                  (''request_id'', PStr request_id),
                                  (''data'', PDict ((''request_id'', PStr request_id)
                                                    # msg_fields result_data))])
                          # map (\<lambda>(user_id, connection).
                                   (user_id,
                                    PDict [(''type'', PStr ''system_stats''),
                                           (''data'', PDict [(''total_processed'', PNum 1),
                                                             (''timestamp'', PStr now)])]))
                              (filter (\<lambda>(user_id, connection). ws_open connection)
                                 (active_connections s))
                        else
                          map (\<lambda>(user_id, connection).
                                 (user_id,
                                  PDict [(''type'', PStr ''system_stats''),
                                         (''data'', PDict [(''total_processed'', PNum 1),
                                                           (''timestamp'', PStr now)])]))
                            (filter (\<lambda>(user_id, connection). ws_open connection)
                               (AList.delete owner (active_connections s)))))
       \<and> (fst (get_user_for_request request_id s) = None \<longrightarrow>
            trace (snd (handle_result now result_data s)) = trace s
          \<and> active_connections (snd (handle_result now result_data s)) = active_connections s)"
proof -
  obtain owner s1 where lookup: "get_user_for_request request_id s = (owner, s1)"
    by (cases "get_user_for_request request_id s")
  with get_user_for_request_state [of request_id s]
  have s1: "active_connections s1 = active_connections s" "trace s1 = trace s"
    by simp_all
  show ?thesis
  proof (cases owner)
    case None
    with assms lookup s1 show ?thesis by (simp add: handle_result_def)
  next
    case (Some user_id)
    with lookup have "user_id \<noteq> []" by (simp add: get_user_for_request_nonempty)
    with Some assms lookup s1 show ?thesis
      by (simp add: handle_result_def broadcast_sent_frames send_personal_message_sent_frames
            send_personal_message_connections analysis_result_message_def
            system_stats_message_def msg_to_py_def
          split: option.splits)
  qed
qed

theorem handle_result_delivers_iff_owner_connected_witness:
  "sent_frames (trace (snd (handle_result ''t2''
        \<lparr>msg_request_id = Some ''r1'', msg_fields = [(''status'', PStr ''completed'')]\<rparr>
        \<lparr>active_connections = [(''alice'', \<lparr>ws_open = True\<rparr>), (''bob'', \<lparr>ws_open = True\<rparr>)],
         redis_client = \<lparr>store = [''request_user:r1'' \<mapsto> (RString ''alice'', Some 3600)],
                          clock = 10, redis_faults = []\<rparr>,
         rt_kafka_producer = \<lparr>records = [], send_faults = []\<rparr>,
         metrics = None, trace = []\<rparr>)))
   = [(''alice'', PDict [(''type'', PStr ''analysis_result''), (''request_id'', PStr ''r1''),
                         (''data'', PDict [(''request_id'', PStr ''r1''),
                                           (''status'', PStr ''completed'')])]),
      (''alice'', PDict [(''type'', PStr ''system_stats''),
                         (''data'', PDict [(''total_processed'', PNum 1),
                                           (''timestamp'', PStr ''t2'')])]),
      (''bob'', PDict [(''type'', PStr ''system_stats''),
                       (''data'', PDict [(''total_processed'', PNum 1),
                                         (''timestamp'', PStr ''t2'')])])]
   \<and> trace (snd (handle_result ''t2''
        \<lparr>msg_request_id = Some ''r1'', msg_fields = [(''status'', PStr ''completed'')]\<rparr>
        \<lparr>active_connections = [(''alice'', \<lparr>ws_open = True\<rparr>), (''bob'', \<lparr>ws_open = True\<rparr>)],
         redis_client = \<lparr>store = [''request_user:r1'' \<mapsto> (RString ''alice'', Some 3600)],
                          clock = 10, redis_faults = [True]\<rparr>,
         rt_kafka_producer = \<lparr>records = [], send_faults = []\<rparr>,
         metrics = None, trace = []\<rparr>))
   = []"
  using handle_result_delivers_iff_owner_connected
    [where result_data = "\<lparr>msg_request_id = Some ''r1'', msg_fields = [(''status'', PStr ''completed'')]\<rparr>"
       and request_id = "''r1''" and now = "''t2''"
       and s = "\<lparr>active_connections = [(''alice'', \<lparr>ws_open = True\<rparr>), (''bob'', \<lparr>ws_open = True\<rparr>)],
         redis_client = \<lparr>store = [''request_user:r1'' \<mapsto> (RString ''alice'', Some 3600)],
                          clock = 10, redis_faults = []\<rparr>,
         rt_kafka_producer = \<lparr>records = [], send_faults = []\<rparr>,
         metrics = None, trace = []\<rparr>"]
    handle_result_delivers_iff_owner_connected
    [where result_data = "\<lparr>msg_request_id = Some ''r1'', msg_fields = [(''status'', PStr ''completed'')]\<rparr>"
       and request_id = "''r1''" and now = "''t2''"
       and s = "\<lparr>active_connections = [(''alice'', \<lparr>ws_open = True\<rparr>), (''bob'', \<lparr>ws_open = True\<rparr>)],
         redis_client = \<lparr>store = [''request_user:r1'' \<mapsto> (RString ''alice'', Some 3600)],
                          clock = 10, redis_faults = [True]\<rparr>,
         rt_kafka_producer = \<lparr>records = [], send_faults = []\<rparr>,
         metrics = None, trace = []\<rparr>"]
  by (simp add: get_user_for_request_def redis_call_def redis_get_def redis_lookup_def truthy_def)

subsection \<open>Correlation entries written by an upload\<close>

















end
